theory Spec2Isabelle
  imports Main
begin

section \<open>Values, errors and effects\<close>

text \<open>
  The SDK is TypeScript. The values that cross its interface are JavaScript numbers,
  bigints, booleans and strings, and \<open>undefined\<close>. A number is modelled by an integer:
  only integer-valued numbers are in the model. Every \<open>throw\<close> and every rejected
  promise is an \<open>Inl\<close> of the type \<open>error\<close>.
\<close>

datatype js_value = Undefined | Num int | Big int | Bool bool | Str string

datatype error =
    GatewayUrlNotConfigured  \<comment> \<open>\<open>new Error('Gateway URL not configured')\<close>\<close>
  | DecryptionTimeout int    \<comment> \<open>\<open>new Error(`Decryption timeout for request ${requestId}`)\<close>\<close>
  | Thrown string            \<comment> \<open>an exception of a collaborator (fetch, JSON parsing, the engine), by name\<close>

text \<open>
  What the program does to the outside is recorded as a trace: a request sent with
  \<open>fetch\<close>, a \<open>setTimeout\<close> delay in milliseconds, a reading of \<open>Date.now()\<close>.
\<close>

datatype event = Fetch string | Sleep nat | Now

text \<open>
  The body of an HTTP response as \<open>response.json()\<close> sees it: text that is not JSON
  (the call rejects), the JSON value \<open>null\<close>, or an object with its fields. Any other
  JSON value has no property of its own that the SDK reads and behaves as an object
  without fields.
\<close>

datatype body = Malformed | JsonNull | JsonObject "string \<Rightarrow> js_value option"

datatype fetch_outcome =
    Rejected              \<comment> \<open>the promise of \<open>fetch\<close> rejects (no connection)\<close>
  | Response bool body    \<comment> \<open>\<open>response.ok\<close> and the body\<close>

text \<open>
  The environment: what the gateway answers to the k-th request (counted from 0) sent
  to a URL, and what the k-th reading of the clock returns.
\<close>

record env =
  gateway :: "nat \<Rightarrow> string \<Rightarrow> fetch_outcome"
  clock :: "nat \<Rightarrow> int"

section \<open>core/types.ts\<close>

record NetworkConfig =
  chainId :: int
  name :: string
  rpcUrl :: string
  gatewayUrl :: "string option"
  aclAddress :: "string option"
  kmsVerifierAddress :: "string option"

text \<open>\<open>FhevmConfig\<close>; its \<open>provider\<close> is never read by the client and is left out.\<close>

record FhevmConfig =
  network :: NetworkConfig
  gatewayUrl :: "string option"
  aclAddress :: "string option"
  kmsVerifierAddress :: "string option"

record EncryptedInput =
  handles :: "string list"
  inputProof :: string

record DecryptionRequest =
  requestId :: int
  ciphertext :: string
  contractAddress :: string
  timestamp :: int

text \<open>The three entries of \<open>NETWORKS\<close>, and the table with its keys.\<close>

definition sepolia :: NetworkConfig where
  "sepolia =
     \<lparr>chainId = 11155111, name = ''Sepolia'', rpcUrl = ''https://rpc.sepolia.org'',
      gatewayUrl = Some ''https://gateway.sepolia.zama.ai'',
      aclAddress = Some ''0x339EcE85B9E11a3A3AA557582784a15d7F82AAf2'',
      kmsVerifierAddress = Some ''0x12345...''\<rparr>"

definition zamaDevnet :: NetworkConfig where
  "zamaDevnet =
     \<lparr>chainId = 9000, name = ''Zama Devnet'', rpcUrl = ''https://devnet.zama.ai'',
      gatewayUrl = Some ''https://gateway.devnet.zama.ai'',
      aclAddress = Some ''0x2Fb4341...'',
      kmsVerifierAddress = Some ''0x67890...''\<rparr>"

definition zamaTestnet :: NetworkConfig where
  "zamaTestnet =
     \<lparr>chainId = 8009, name = ''Zama Testnet'', rpcUrl = ''https://fhevm-testnet.zama.ai'',
      gatewayUrl = Some ''https://gateway.testnet.zama.ai'',
      aclAddress = None,
      kmsVerifierAddress = None\<rparr>"

definition NETWORKS :: "(string \<times> NetworkConfig) list" where
  "NETWORKS = [(''sepolia'', sepolia), (''zamaDevnet'', zamaDevnet), (''zamaTestnet'', zamaTestnet)]"

text \<open>
  The registry has no lookup function of its own: a profile is read as the property
  \<open>NETWORKS[key]\<close> (\<open>NETWORKS.sepolia\<close> in every caller). \<open>NETWORKS\<close> is an object
  literal, so the read finds the table's own entry for the key if it has one, otherwise
  the member of that name that every object inherits from its prototype, if there is
  one, and otherwise gives \<open>undefined\<close>. The read raises nothing in any of the three
  cases. The prototype belongs to the JavaScript runtime and is a parameter: the
  inherited members by name.
\<close>

datatype 'm property =
    NoProperty              \<comment> \<open>the read gives \<open>undefined\<close>\<close>
  | Profile NetworkConfig   \<comment> \<open>an entry of the table\<close>
  | Inherited 'm            \<comment> \<open>a member inherited from the prototype\<close>

definition NETWORKS_get :: "(string \<Rightarrow> 'm option) \<Rightarrow> string \<Rightarrow> error + 'm property" where
  "NETWORKS_get proto key =
     Inr (case map_of NETWORKS key of
            Some p \<Rightarrow> Profile p
          | None \<Rightarrow> (case proto key of Some m \<Rightarrow> Inherited m | None \<Rightarrow> NoProperty))"

text \<open>
  The members of \<open>Object.prototype\<close> in a standard runtime, each standing for itself
  under its name.
\<close>

definition Object_prototype :: "string \<Rightarrow> string option" where
  "Object_prototype =
     map_of (map (\<lambda>n. (n, n))
       [''constructor'', ''hasOwnProperty'', ''isPrototypeOf'', ''propertyIsEnumerable'',
        ''toLocaleString'', ''toString'', ''valueOf'', ''__proto__'',
        ''__defineGetter__'', ''__defineSetter__'', ''__lookupGetter__'', ''__lookupSetter__''])"

section \<open>The engine (fhevmjs) as a parameter\<close>

text \<open>
  The FHE engine is a library outside the repository. The client uses five of its entry
  points; they are parameters here, each may throw. \<open>kind\<close> selects one of the six
  typed methods (\<open>encrypt8\<close> ... \<open>encryptAddress\<close> of an instance, \<open>add8\<close> ...
  \<open>addAddress\<close> of an input). An engine input is mutated in place by its add-methods
  (the client ignores what they return), which is state passing here.
\<close>

datatype kind = M8 | M16 | M32 | M64 | MBool | MAddress

record InstanceParams =
  p_chainId :: int
  p_publicKey :: js_value
  p_gatewayUrl :: "string option"
  p_aclAddress :: "string option"
  p_kmsVerifierAddress :: "string option"

record ('e, 'b) engine =
  createInstance :: "InstanceParams \<Rightarrow> error + 'e"
  instance_encrypt :: "'e \<Rightarrow> kind \<Rightarrow> js_value \<Rightarrow> error + string"
  instance_createEncryptedInput :: "'e \<Rightarrow> string \<Rightarrow> string \<Rightarrow> error + 'b"
  input_add :: "kind \<Rightarrow> js_value \<Rightarrow> 'b \<Rightarrow> error + 'b"
  input_encrypt :: "'b \<Rightarrow> error + EncryptedInput"

section \<open>core/FhevmClient.ts: the client\<close>

text \<open>
  The mutable fields of a \<open>FhevmClientImpl\<close> (\<open>instance\<close>, \<open>isInitialized\<close>) and
  the trace of the effects performed so far. The configuration is read-only and is
  passed beside the state.
\<close>

record 'e state =
  instanceE :: "'e option"
  isInitialized :: bool
  trace :: "event list"

definition new_client :: "'e state" where
  "new_client = \<lparr>instanceE = None, isInitialized = False, trace = []\<rparr>"

text \<open>\<open>a || b\<close> on optional strings: \<open>undefined\<close> and the empty string are falsy.\<close>

definition falsy :: "string option \<Rightarrow> bool" where
  "falsy a = (case a of None \<Rightarrow> True | Some s \<Rightarrow> s = [])"

definition js_or :: "string option \<Rightarrow> string option \<Rightarrow> string option" where
  "js_or a b = (if falsy a then b else a)"

definition is_now :: "event \<Rightarrow> bool" where
  "is_now ev = (case ev of Now \<Rightarrow> True | _ \<Rightarrow> False)"

definition fetches :: "event list \<Rightarrow> string list" where
  "fetches tr = concat (map (\<lambda>ev. case ev of Fetch u \<Rightarrow> [u] | _ \<Rightarrow> []) tr)"

definition slept :: "event list \<Rightarrow> nat" where
  "slept tr = sum_list (map (\<lambda>ev. case ev of Sleep d \<Rightarrow> d | _ \<Rightarrow> 0) tr)"

text \<open>\<open>fetch(url)\<close>: the request is recorded, the environment gives the outcome.\<close>

definition fetch :: "env \<Rightarrow> string \<Rightarrow> 'e state \<Rightarrow> fetch_outcome \<times> 'e state" where
  "fetch en url st =
     (gateway en (length (fetches (trace st))) url, st\<lparr>trace := trace st @ [Fetch url]\<rparr>)"

text \<open>\<open>await new Promise(resolve => setTimeout(resolve, ms))\<close>\<close>

definition sleep :: "nat \<Rightarrow> 'e state \<Rightarrow> 'e state" where
  "sleep ms st = st\<lparr>trace := trace st @ [Sleep ms]\<rparr>"

text \<open>\<open>Date.now()\<close>\<close>

definition date_now :: "env \<Rightarrow> 'e state \<Rightarrow> int \<times> 'e state" where
  "date_now en st =
     (clock en (length (filter is_now (trace st))), st\<lparr>trace := trace st @ [Now]\<rparr>)"

text \<open>
  \<open>(await response.json()).field\<close>: parsing rejects on a malformed body, reading a
  property of \<open>null\<close> throws a TypeError, a missing property reads as \<open>undefined\<close>.
\<close>

definition json_field :: "body \<Rightarrow> string \<Rightarrow> error + js_value" where
  "json_field b field =
     (case b of
        Malformed \<Rightarrow> Inl (Thrown ''SyntaxError'')
      | JsonNull \<Rightarrow> Inl (Thrown ''TypeError'')
      | JsonObject obj \<Rightarrow> (case obj field of None \<Rightarrow> Inr Undefined | Some v \<Rightarrow> Inr v))"

text \<open>
  \<open>const gatewayUrl = this.config.gatewayUrl || this.config.network.gatewayUrl;
  if (!gatewayUrl) throw ...\<close>: \<open>None\<close> is the throw.
\<close>

definition resolve_gatewayUrl :: "FhevmConfig \<Rightarrow> string option" where
  "resolve_gatewayUrl cfg =
     (let g = js_or (FhevmConfig.gatewayUrl cfg) (NetworkConfig.gatewayUrl (network cfg))
      in if falsy g then None else g)"

definition getPublicKey ::
  "env \<Rightarrow> FhevmConfig \<Rightarrow> 'e state \<Rightarrow> (error + js_value) \<times> 'e state" where
  "getPublicKey en cfg st =
     (case resolve_gatewayUrl cfg of
        None \<Rightarrow> (Inl GatewayUrlNotConfigured, st)
      | Some g \<Rightarrow>
          (case fetch en (g @ ''/fhe-key'') st of
             (Rejected, st') \<Rightarrow> (Inl (Thrown ''fetch''), st')
           | (Response ok b, st') \<Rightarrow> (json_field b ''publicKey'', st')))"

text \<open>The object literal handed to \<open>createInstance\<close>.\<close>

definition instance_params :: "FhevmConfig \<Rightarrow> js_value \<Rightarrow> InstanceParams" where
  "instance_params cfg pk =
     \<lparr>p_chainId = chainId (network cfg),
      p_publicKey = pk,
      p_gatewayUrl = js_or (FhevmConfig.gatewayUrl cfg) (NetworkConfig.gatewayUrl (network cfg)),
      p_aclAddress = js_or (FhevmConfig.aclAddress cfg) (NetworkConfig.aclAddress (network cfg)),
      p_kmsVerifierAddress =
        js_or (FhevmConfig.kmsVerifierAddress cfg) (NetworkConfig.kmsVerifierAddress (network cfg))\<rparr>"

definition initialize ::
  "('e, 'b) engine \<Rightarrow> env \<Rightarrow> FhevmConfig \<Rightarrow> 'e state \<Rightarrow> (error + 'e) \<times> 'e state" where
  "initialize eng en cfg st =
     (case getPublicKey en cfg st of
        (Inl e, st') \<Rightarrow> (Inl e, st')
      | (Inr pk, st') \<Rightarrow>
          (case createInstance eng (instance_params cfg pk) of
             Inl e \<Rightarrow> (Inl e, st')
           | Inr i \<Rightarrow> (Inr i, st'\<lparr>instanceE := Some i, isInitialized := True\<rparr>)))"

text \<open>
  \<open>ensureInitialized\<close>: the body of \<open>if (!this.instance || !this.isInitialized)\<close> is
  \<open>initialize\<close>; otherwise the memoized instance is returned.
\<close>

definition ensureInitialized ::
  "('e, 'b) engine \<Rightarrow> env \<Rightarrow> FhevmConfig \<Rightarrow> 'e state \<Rightarrow> (error + 'e) \<times> 'e state" where
  "ensureInitialized eng en cfg st =
     (case instanceE st of
        None \<Rightarrow> initialize eng en cfg st
      | Some i \<Rightarrow> if isInitialized st then (Inr i, st) else initialize eng en cfg st)"

text \<open>
  The six scalar operations have one body: \<open>const instance = await
  this.ensureInitialized(); return instance.encryptN(value);\<close>
\<close>

definition encrypt_with ::
  "kind \<Rightarrow> ('e, 'b) engine \<Rightarrow> env \<Rightarrow> FhevmConfig \<Rightarrow> js_value \<Rightarrow> 'e state
     \<Rightarrow> (error + string) \<times> 'e state" where
  "encrypt_with m eng en cfg v st =
     (case ensureInitialized eng en cfg st of
        (Inl e, st') \<Rightarrow> (Inl e, st')
      | (Inr i, st') \<Rightarrow> (instance_encrypt eng i m v, st'))"

definition encrypt8 ::
  "('e, 'b) engine \<Rightarrow> env \<Rightarrow> FhevmConfig \<Rightarrow> int \<Rightarrow> 'e state \<Rightarrow> (error + string) \<times> 'e state" where
  "encrypt8 eng en cfg v = encrypt_with M8 eng en cfg (Num v)"

definition encrypt16 ::
  "('e, 'b) engine \<Rightarrow> env \<Rightarrow> FhevmConfig \<Rightarrow> int \<Rightarrow> 'e state \<Rightarrow> (error + string) \<times> 'e state" where
  "encrypt16 eng en cfg v = encrypt_with M16 eng en cfg (Num v)"

definition encrypt32 ::
  "('e, 'b) engine \<Rightarrow> env \<Rightarrow> FhevmConfig \<Rightarrow> int \<Rightarrow> 'e state \<Rightarrow> (error + string) \<times> 'e state" where
  "encrypt32 eng en cfg v = encrypt_with M32 eng en cfg (Num v)"

definition encrypt64 ::
  "('e, 'b) engine \<Rightarrow> env \<Rightarrow> FhevmConfig \<Rightarrow> int \<Rightarrow> 'e state \<Rightarrow> (error + string) \<times> 'e state" where
  "encrypt64 eng en cfg v = encrypt_with M64 eng en cfg (Big v)"

definition encryptBool ::
  "('e, 'b) engine \<Rightarrow> env \<Rightarrow> FhevmConfig \<Rightarrow> bool \<Rightarrow> 'e state \<Rightarrow> (error + string) \<times> 'e state" where
  "encryptBool eng en cfg v = encrypt_with MBool eng en cfg (Bool v)"

definition encryptAddress ::
  "('e, 'b) engine \<Rightarrow> env \<Rightarrow> FhevmConfig \<Rightarrow> string \<Rightarrow> 'e state \<Rightarrow> (error + string) \<times> 'e state" where
  "encryptAddress eng en cfg v = encrypt_with MAddress eng en cfg (Str v)"

text \<open>
  \<open>requestDecryption\<close>: the identifier is \<open>BigInt(Date.now())\<close>, the timestamp a
  second reading of the clock. The function is \<open>async\<close> and has no \<open>await\<close>.
\<close>

definition requestDecryption ::
  "env \<Rightarrow> string \<Rightarrow> string \<Rightarrow> 'e state \<Rightarrow> DecryptionRequest \<times> 'e state" where
  "requestDecryption en ct addr st =
     (case date_now en st of
        (t1, st1) \<Rightarrow>
          (case date_now en st1 of
             (t2, st2) \<Rightarrow>
               (\<lparr>requestId = t1, ciphertext = ct, contractAddress = addr, timestamp = t2\<rparr>, st2)))"

text \<open>A bigint in a template literal: its decimal digits, with a sign when negative.\<close>

definition digit :: "nat \<Rightarrow> char" where
  "digit d = ''0123456789'' ! d"

function show_nat :: "nat \<Rightarrow> string" where
  "show_nat n = (if n < 10 then [digit n] else show_nat (n div 10) @ [digit (n mod 10)])"
  by pat_completeness auto
termination
  by (relation "measure id") auto

definition show_int :: "int \<Rightarrow> string" where
  "show_int i = (if i < 0 then CHR ''-'' # show_nat (nat (- i)) else show_nat (nat i))"

definition maxAttempts :: nat where
  "maxAttempts = 30"

definition delayMs :: nat where
  "delayMs = 2000"

text \<open>
  The loop of \<open>awaitDecryption\<close>, by the number of attempts left. One attempt: the
  request; on \<open>response.ok\<close> the body is parsed and its \<open>value\<close> returned; whatever is
  thrown inside the \<open>try\<close> (by \<open>fetch\<close>, by the parsing, by reading a property of
  \<open>null\<close>) is caught and dropped; in every case but the return, the delay follows.
  After the last attempt the loop is left and the timeout is thrown.
\<close>

fun poll :: "env \<Rightarrow> string \<Rightarrow> int \<Rightarrow> nat \<Rightarrow> 'e state \<Rightarrow> (error + js_value) \<times> 'e state" where
  "poll en url rid 0 st = (Inl (DecryptionTimeout rid), st)"
| "poll en url rid (Suc n) st =
     (case fetch en url st of
        (Rejected, st') \<Rightarrow> poll en url rid n (sleep delayMs st')
      | (Response ok b, st') \<Rightarrow>
          (if ok then
             (case json_field b ''value'' of
                Inr v \<Rightarrow> (Inr v, st')
              | Inl e \<Rightarrow> poll en url rid n (sleep delayMs st'))
           else poll en url rid n (sleep delayMs st')))"

definition decrypt_url :: "string \<Rightarrow> int \<Rightarrow> string" where
  "decrypt_url g rid = g @ ''/decrypt/'' @ show_int rid"

definition awaitDecryption ::
  "env \<Rightarrow> FhevmConfig \<Rightarrow> int \<Rightarrow> 'e state \<Rightarrow> (error + js_value) \<times> 'e state" where
  "awaitDecryption en cfg rid st =
     (case resolve_gatewayUrl cfg of
        None \<Rightarrow> (Inl GatewayUrlNotConfigured, st)
      | Some g \<Rightarrow> poll en (decrypt_url g rid) rid maxAttempts st)"

section \<open>core/FhevmClient.ts: the input builder\<close>

text \<open>
  An \<open>EncryptedInputBuilderImpl\<close>: the array \<open>inputs\<close> of \<open>{type, value}\<close> objects and
  the two addresses. Its \<open>getInstance\<close> is the client's \<open>ensureInitialized\<close>, which the
  functions below call on the client's state.
\<close>

record EncryptedInputBuilderImpl =
  inputs :: "(string \<times> js_value) list"
  contractAddress :: string
  userAddress :: string

definition createEncryptedInput :: "string \<Rightarrow> string \<Rightarrow> EncryptedInputBuilderImpl" where
  "createEncryptedInput c u = \<lparr>inputs = [], contractAddress = c, userAddress = u\<rparr>"

definition add8 :: "int \<Rightarrow> EncryptedInputBuilderImpl \<Rightarrow> EncryptedInputBuilderImpl" where
  "add8 v b = b\<lparr>inputs := inputs b @ [(''euint8'', Num v)]\<rparr>"

definition add16 :: "int \<Rightarrow> EncryptedInputBuilderImpl \<Rightarrow> EncryptedInputBuilderImpl" where
  "add16 v b = b\<lparr>inputs := inputs b @ [(''euint16'', Num v)]\<rparr>"

definition add32 :: "int \<Rightarrow> EncryptedInputBuilderImpl \<Rightarrow> EncryptedInputBuilderImpl" where
  "add32 v b = b\<lparr>inputs := inputs b @ [(''euint32'', Num v)]\<rparr>"

definition add64 :: "int \<Rightarrow> EncryptedInputBuilderImpl \<Rightarrow> EncryptedInputBuilderImpl" where
  "add64 v b = b\<lparr>inputs := inputs b @ [(''euint64'', Big v)]\<rparr>"

definition addBool :: "bool \<Rightarrow> EncryptedInputBuilderImpl \<Rightarrow> EncryptedInputBuilderImpl" where
  "addBool v b = b\<lparr>inputs := inputs b @ [(''ebool'', Bool v)]\<rparr>"

definition addAddress :: "string \<Rightarrow> EncryptedInputBuilderImpl \<Rightarrow> EncryptedInputBuilderImpl" where
  "addAddress v b = b\<lparr>inputs := inputs b @ [(''eaddress'', Str v)]\<rparr>"

text \<open>The \<open>switch (type)\<close> of \<open>getEncrypted\<close>; it has no default branch.\<close>

definition switch_type :: "string \<Rightarrow> kind option" where
  "switch_type ty =
     (if ty = ''euint8'' then Some M8
      else if ty = ''euint16'' then Some M16
      else if ty = ''euint32'' then Some M32
      else if ty = ''euint64'' then Some M64
      else if ty = ''ebool'' then Some MBool
      else if ty = ''eaddress'' then Some MAddress
      else None)"

text \<open>The \<open>for (const {type, value} of this.inputs)\<close> loop on the engine's input.\<close>

fun replay :: "('e, 'b) engine \<Rightarrow> (string \<times> js_value) list \<Rightarrow> 'b \<Rightarrow> error + 'b" where
  "replay eng [] input = Inr input"
| "replay eng ((ty, v) # rest) input =
     (case switch_type ty of
        None \<Rightarrow> replay eng rest input
      | Some m \<Rightarrow>
          (case input_add eng m v input of
             Inl e \<Rightarrow> Inl e
           | Inr input' \<Rightarrow> replay eng rest input'))"

definition getEncrypted ::
  "('e, 'b) engine \<Rightarrow> env \<Rightarrow> FhevmConfig \<Rightarrow> EncryptedInputBuilderImpl \<Rightarrow> 'e state
     \<Rightarrow> (error + EncryptedInput) \<times> 'e state" where
  "getEncrypted eng en cfg b st =
     (case ensureInitialized eng en cfg st of
        (Inl e, st') \<Rightarrow> (Inl e, st')
      | (Inr i, st') \<Rightarrow>
          (case instance_createEncryptedInput eng i
                  (EncryptedInputBuilderImpl.contractAddress b) (userAddress b) of
             Inl e \<Rightarrow> (Inl e, st')
           | Inr input \<Rightarrow>
               (case replay eng (inputs b) input of
                  Inl e \<Rightarrow> (Inl e, st')
                | Inr input' \<Rightarrow> (input_encrypt eng input', st'))))"

section \<open>Sequences of builder calls, and a recording engine\<close>

text \<open>
  A caller's chain \<open>.add32(500).add8(10).addBool(true)\<close> is a list of calls, applied
  from the left. \<open>engine_call\<close> is the typed add-method of the engine, with its
  argument, that a call of the builder stands for.
\<close>

datatype append = Add8 int | Add16 int | Add32 int | Add64 int | AddBool bool | AddAddress string

fun apply_append :: "EncryptedInputBuilderImpl \<Rightarrow> append \<Rightarrow> EncryptedInputBuilderImpl" where
  "apply_append b (Add8 v) = add8 v b"
| "apply_append b (Add16 v) = add16 v b"
| "apply_append b (Add32 v) = add32 v b"
| "apply_append b (Add64 v) = add64 v b"
| "apply_append b (AddBool v) = addBool v b"
| "apply_append b (AddAddress v) = addAddress v b"

definition chain :: "string \<Rightarrow> string \<Rightarrow> append list \<Rightarrow> EncryptedInputBuilderImpl" where
  "chain c u calls = foldl apply_append (createEncryptedInput c u) calls"

fun engine_call :: "append \<Rightarrow> kind \<times> js_value" where
  "engine_call (Add8 v) = (M8, Num v)"
| "engine_call (Add16 v) = (M16, Num v)"
| "engine_call (Add32 v) = (M32, Num v)"
| "engine_call (Add64 v) = (M64, Big v)"
| "engine_call (AddBool v) = (MBool, Bool v)"
| "engine_call (AddAddress v) = (MAddress, Str v)"

text \<open>The engine's add-methods called one after the other, stopping at the first throw.\<close>

fun add_all :: "('e, 'b) engine \<Rightarrow> (kind \<times> js_value) list \<Rightarrow> 'b \<Rightarrow> error + 'b" where
  "add_all eng [] input = Inr input"
| "add_all eng ((m, v) # rest) input =
     (case input_add eng m v input of
        Inl e \<Rightarrow> Inl e
      | Inr input' \<Rightarrow> add_all eng rest input')"

text \<open>
  A recording engine, in the place of fhevmjs where a concrete engine is needed: it
  accepts every value, an instance is the parameters it was created with, an input is
  the list of the add-calls it received, and encrypting an input gives one handle for
  each call, in the order of the calls. A handle spells the call it stands for.
\<close>

definition kind_tag :: "kind \<Rightarrow> string" where
  "kind_tag m =
     (case m of M8 \<Rightarrow> ''euint8'' | M16 \<Rightarrow> ''euint16'' | M32 \<Rightarrow> ''euint32''
      | M64 \<Rightarrow> ''euint64'' | MBool \<Rightarrow> ''ebool'' | MAddress \<Rightarrow> ''eaddress'')"

text \<open>The \<open>{type, value}\<close> object that a call of the builder pushes.\<close>

definition tagged :: "append \<Rightarrow> string \<times> js_value" where
  "tagged a = (case engine_call a of (m, v) \<Rightarrow> (kind_tag m, v))"

definition show_value :: "js_value \<Rightarrow> string" where
  "show_value v =
     (case v of
        Undefined \<Rightarrow> ''undefined''
      | Num n \<Rightarrow> show_int n
      | Big n \<Rightarrow> show_int n
      | Bool b \<Rightarrow> (if b then ''true'' else ''false'')
      | Str s \<Rightarrow> s)"

definition handle_of :: "kind \<times> js_value \<Rightarrow> string" where
  "handle_of mv = (case mv of (m, v) \<Rightarrow> kind_tag m @ '':'' @ show_value v)"

definition recording_engine :: "(InstanceParams, (kind \<times> js_value) list) engine" where
  "recording_engine =
     \<lparr>createInstance = (\<lambda>ps. Inr ps),
      instance_encrypt = (\<lambda>i m v. Inr (handle_of (m, v))),
      instance_createEncryptedInput = (\<lambda>i c u. Inr []),
      input_add = (\<lambda>m v input. Inr (input @ [(m, v)])),
      input_encrypt = (\<lambda>input. Inr \<lparr>handles = map handle_of input, inputProof = ''proof''\<rparr>)\<rparr>"

text \<open>
  The configuration of a client for \<open>NETWORKS.sepolia\<close>, without overrides.
\<close>

definition sepolia_config :: FhevmConfig where
  "sepolia_config =
     \<lparr>network = sepolia, gatewayUrl = None, aclAddress = None, kmsVerifierAddress = None\<rparr>"

text \<open>A gateway that serves the public key and the plaintext 42 on every request.\<close>

definition serving_env :: env where
  "serving_env =
     \<lparr>gateway = (\<lambda>k url. Response True
         (JsonObject (\<lambda>f. if f = ''publicKey'' then Some (Str ''pk'')
                          else if f = ''value'' then Some (Big 42) else None))),
      clock = (\<lambda>k. 1700000000000 + int k)\<rparr>"

section \<open>Calls that overlap\<close>

text \<open>
  JavaScript runs one call at a time and switches between calls only where a call
  awaits. A call of \<open>ensureInitialized\<close> is therefore a task that is resumed from one
  \<open>await\<close> to the next; between two resumptions of a task, other tasks may run on the
  same client. The states of a task are the places where the call is suspended:
  \<open>await fetch(...)\<close> and \<open>await response.json()\<close> in \<open>getPublicKey\<close>,
  \<open>await this.getPublicKey()\<close> and \<open>await createInstance(...)\<close> in
  \<open>ensureInitialized\<close>. Each carries what the awaited promise will settle to.
\<close>

datatype 'e task =
    Ready
  | AwaitFetch fetch_outcome
  | AwaitJson body
  | AwaitKey "error + js_value"
  | AwaitCreate "error + 'e"
  | Done "error + 'e"

text \<open>
  The first stretch of a call that finds the client uninitialized: up to the
  \<open>fetch\<close>, which is sent before the call is suspended for the first time.
\<close>

definition begin_initialize :: "env \<Rightarrow> FhevmConfig \<Rightarrow> 'e state \<Rightarrow> 'e task \<times> 'e state" where
  "begin_initialize en cfg st =
     (case resolve_gatewayUrl cfg of
        None \<Rightarrow> (AwaitKey (Inl GatewayUrlNotConfigured), st)
      | Some g \<Rightarrow> (case fetch en (g @ ''/fhe-key'') st of (out, st') \<Rightarrow> (AwaitFetch out, st')))"

fun resume ::
  "('e, 'b) engine \<Rightarrow> env \<Rightarrow> FhevmConfig \<Rightarrow> 'e task \<Rightarrow> 'e state \<Rightarrow> 'e task \<times> 'e state" where
  "resume eng en cfg Ready st =
     (case instanceE st of
        None \<Rightarrow> begin_initialize en cfg st
      | Some i \<Rightarrow> if isInitialized st then (Done (Inr i), st) else begin_initialize en cfg st)"
| "resume eng en cfg (AwaitFetch Rejected) st = (AwaitKey (Inl (Thrown ''fetch'')), st)"
| "resume eng en cfg (AwaitFetch (Response ok b)) st = (AwaitJson b, st)"
| "resume eng en cfg (AwaitJson b) st = (AwaitKey (json_field b ''publicKey''), st)"
| "resume eng en cfg (AwaitKey (Inl e)) st = (Done (Inl e), st)"
| "resume eng en cfg (AwaitKey (Inr pk)) st =
     (AwaitCreate (createInstance eng (instance_params cfg pk)), st)"
| "resume eng en cfg (AwaitCreate (Inl e)) st = (Done (Inl e), st)"
| "resume eng en cfg (AwaitCreate (Inr i)) st =
     (Done (Inr i), st\<lparr>instanceE := Some i, isInitialized := True\<rparr>)"
| "resume eng en cfg (Done r) st = (Done r, st)"

text \<open>
  A schedule names, step by step, the task that is resumed next. The tasks share the
  client's state.
\<close>

fun run ::
  "('e, 'b) engine \<Rightarrow> env \<Rightarrow> FhevmConfig \<Rightarrow> nat list \<Rightarrow> 'e task list \<times> 'e state
     \<Rightarrow> 'e task list \<times> 'e state" where
  "run eng en cfg [] (ts, st) = (ts, st)"
| "run eng en cfg (k # ks) (ts, st) =
     (if k < length ts
      then (case resume eng en cfg (ts ! k) st of
              (t', st') \<Rightarrow> run eng en cfg ks (ts[k := t'], st'))
      else run eng en cfg ks (ts, st))"

section \<open>Gateways and clocks for concrete runs\<close>

text \<open>A gateway that answers every request with a non-success status and the key.\<close>

definition failing_status_env :: env where
  "failing_status_env =
     \<lparr>gateway = (\<lambda>k url. Response False
         (JsonObject (\<lambda>f. if f = ''publicKey'' then Some (Str ''pk'') else None))),
      clock = (\<lambda>k. 1700000000000 + int k)\<rparr>"

text \<open>A gateway that answers every request with success and the empty object.\<close>

definition keyless_env :: env where
  "keyless_env =
     \<lparr>gateway = (\<lambda>k url. Response True (JsonObject (\<lambda>f. None))),
      clock = (\<lambda>k. 1700000000000 + int k)\<rparr>"

text \<open>No connection to the gateway, and a clock read twice within one millisecond.\<close>

definition frozen_clock_env :: env where
  "frozen_clock_env =
     \<lparr>gateway = (\<lambda>k url. Rejected), clock = (\<lambda>k. 1700000000000)\<rparr>"

text \<open>
  A gateway that answers the first request with a non-success status and a body that
  reports the request as rejected, and every later request with the plaintext 42.
\<close>

definition rejecting_then_serving_env :: env where
  "rejecting_then_serving_env =
     \<lparr>gateway = (\<lambda>k url.
         if k = 0
         then Response False (JsonObject (\<lambda>f. if f = ''error'' then Some (Str ''rejected'') else None))
         else Response True (JsonObject (\<lambda>f. if f = ''value'' then Some (Big 42) else None))),
      clock = (\<lambda>k. 1700000000000 + int k)\<rparr>"

text \<open>An attempt got a response with \<open>response.ok\<close>.\<close>

definition is_ok :: "fetch_outcome \<Rightarrow> bool" where
  "is_ok out = (case out of Rejected \<Rightarrow> False | Response ok b \<Rightarrow> ok)"

text \<open>
  What an attempt of the polling loop returns to the caller, if anything: the \<open>value\<close>
  field of the body of a response with \<open>response.ok\<close> whose body can be read.
\<close>

definition delivered :: "fetch_outcome \<Rightarrow> js_value option" where
  "delivered out =
     (case out of
        Rejected \<Rightarrow> None
      | Response ok b \<Rightarrow>
          (if ok then (case json_field b ''value'' of Inl e \<Rightarrow> None | Inr v \<Rightarrow> Some v)
           else None))"

text \<open>
  A gateway that answers the first 30 requests with a non-success status and serves the
  plaintext from the 31st request on.
\<close>

definition late_serving_env :: env where
  "late_serving_env =
     \<lparr>gateway = (\<lambda>k url.
         if k < 30 then Response False (JsonObject (\<lambda>f. None))
         else Response True (JsonObject (\<lambda>f. if f = ''value'' then Some (Num 42) else None))),
      clock = (\<lambda>k. 1700000000000 + int k)\<rparr>"

text \<open>A gateway that serves another public key at the first request than later.\<close>

definition two_keys_env :: env where
  "two_keys_env =
     \<lparr>gateway = (\<lambda>k url. Response True
         (JsonObject (\<lambda>f. if f = ''publicKey'' then Some (Str (if k = 0 then ''pk0'' else ''pk1''))
                          else None))),
      clock = (\<lambda>k. 1700000000000 + int k)\<rparr>"

section \<open>The builder replays its calls in order\<close>

lemma switch_type_kind_tag: "switch_type (kind_tag m) = Some m"
  by (cases m) (simp_all add: switch_type_def kind_tag_def)

lemma inputs_apply_append: "inputs (apply_append b a) = inputs b @ [tagged a]"
  by (cases a) (simp_all add: tagged_def kind_tag_def add8_def add16_def add32_def add64_def addBool_def addAddress_def)

lemma addresses_apply_append:
  "EncryptedInputBuilderImpl.contractAddress (apply_append b a) = EncryptedInputBuilderImpl.contractAddress b"
  "userAddress (apply_append b a) = userAddress b"
  by (cases a; simp add: add8_def add16_def add32_def add64_def addBool_def addAddress_def)+

lemma inputs_foldl: "inputs (foldl apply_append b calls) = inputs b @ map tagged calls"
  by (induction calls arbitrary: b) (simp_all add: inputs_apply_append)

lemma addresses_foldl:
  "EncryptedInputBuilderImpl.contractAddress (foldl apply_append b calls) = EncryptedInputBuilderImpl.contractAddress b"
  "userAddress (foldl apply_append b calls) = userAddress b"
  by (induction calls arbitrary: b; simp add: addresses_apply_append)+

lemma chain_fields:
  "inputs (chain c u calls) = map tagged calls"
  "EncryptedInputBuilderImpl.contractAddress (chain c u calls) = c"
  "userAddress (chain c u calls) = u"
  by (simp_all add: chain_def inputs_foldl addresses_foldl createEncryptedInput_def)

lemma replay_tagged: "replay eng (map tagged calls) input = add_all eng (map engine_call calls) input"
proof (induction calls arbitrary: input)
  case Nil
  show ?case by simp
next
  case (Cons a calls)
  obtain m v where mv: "engine_call a = (m, v)" by (cases "engine_call a")
  then have t: "tagged a = (kind_tag m, v)" by (simp add: tagged_def)
  show ?case
    by (simp add: mv t switch_type_kind_tag Cons.IH split: sum.splits)
qed

lemma recording_engine_fields:
  "createInstance recording_engine ps = Inr ps"
  "instance_encrypt recording_engine i m v = Inr (handle_of (m, v))"
  "instance_createEncryptedInput recording_engine i c u = Inr []"
  "input_add recording_engine m v input = Inr (input @ [(m, v)])"
  "input_encrypt recording_engine input = Inr \<lparr>handles = map handle_of input, inputProof = ''proof''\<rparr>"
  by (simp_all add: recording_engine_def)

lemma add_all_recording: "add_all recording_engine cs input = Inr (input @ cs)"
  by (induction cs arbitrary: input) (auto simp: recording_engine_fields)

text \<open>
  C1. \<open>getEncrypted\<close> on a builder that received the calls \<open>calls\<close> makes the
  engine's add-calls \<open>map engine_call calls\<close>: the corresponding typed add-method for
  each call, with its value, in the order of the calls, none left out, on one engine
  input created for the builder's two addresses, and then encrypts that input once.
  With the recording engine, which returns one handle for each add-call it received,
  the handle at each position is the handle of the builder call at that position.
\<close>

theorem getEncrypted_replays_in_append_order:
  "getEncrypted eng en cfg (chain c u calls) st =
     (case ensureInitialized eng en cfg st of
        (Inl e, st') \<Rightarrow> (Inl e, st')
      | (Inr i, st') \<Rightarrow>
          (case instance_createEncryptedInput eng i c u of
             Inl e \<Rightarrow> (Inl e, st')
           | Inr input \<Rightarrow>
               (case add_all eng (map engine_call calls) input of
                  Inl e \<Rightarrow> (Inl e, st')
                | Inr input' \<Rightarrow> (input_encrypt eng input', st'))))
   \<and> getEncrypted recording_engine en cfg (chain c u calls) st0 =
     (case ensureInitialized recording_engine en cfg st0 of
        (Inl e, st') \<Rightarrow> (Inl e, st')
      | (Inr i, st') \<Rightarrow>
          (Inr \<lparr>handles = map (\<lambda>a. handle_of (engine_call a)) calls,
                inputProof = ''proof''\<rparr>, st'))"
proof -
  have general: "getEncrypted eng' en cfg (chain c u calls) st' =
     (case ensureInitialized eng' en cfg st' of
        (Inl e, st'') \<Rightarrow> (Inl e, st'')
      | (Inr i, st'') \<Rightarrow>
          (case instance_createEncryptedInput eng' i c u of
             Inl e \<Rightarrow> (Inl e, st'')
           | Inr input \<Rightarrow>
               (case add_all eng' (map engine_call calls) input of
                  Inl e \<Rightarrow> (Inl e, st'')
                | Inr input' \<Rightarrow> (input_encrypt eng' input', st''))))"
    for eng' :: "('x, 'y) engine" and st'
    by (simp add: getEncrypted_def chain_fields replay_tagged split: prod.splits sum.splits)
  have recorded: "getEncrypted recording_engine en cfg (chain c u calls) st0 =
     (case ensureInitialized recording_engine en cfg st0 of
        (Inl e, st') \<Rightarrow> (Inl e, st')
      | (Inr i, st') \<Rightarrow>
          (Inr \<lparr>handles = map (\<lambda>a. handle_of (engine_call a)) calls,
                inputProof = ''proof''\<rparr>, st'))"
    by (simp add: general recording_engine_fields add_all_recording
        split: prod.splits sum.splits)
  from general [of eng st] recorded show ?thesis by simp
qed

lemma ensureInitialized_serving:
  "ensureInitialized recording_engine serving_env sepolia_config new_client =
     (Inr (instance_params sepolia_config (Str ''pk'')),
      \<lparr>instanceE = Some (instance_params sepolia_config (Str ''pk'')), isInitialized = True,
       trace = [Fetch ''https://gateway.sepolia.zama.ai/fhe-key'']\<rparr>)"
  by (simp add: ensureInitialized_def initialize_def getPublicKey_def resolve_gatewayUrl_def
      js_or_def falsy_def fetch_def fetches_def json_field_def new_client_def
      sepolia_config_def sepolia_def serving_env_def recording_engine_fields)

text \<open>
  The calls \<open>add32(500)\<close>, \<open>add8(10)\<close>, \<open>addBool(true)\<close> on a new client: three
  handles, for the three calls in their order.
\<close>

theorem getEncrypted_replays_in_append_order_witness:
  "fst (getEncrypted recording_engine serving_env sepolia_config
      (chain ''0xC'' ''0xU'' [Add32 500, Add8 10, AddBool True]) new_client)
    = Inr \<lparr>handles = [''euint32:500'', ''euint8:10'', ''ebool:true''], inputProof = ''proof''\<rparr>"
  using getEncrypted_replays_in_append_order
    [where eng = recording_engine and en = serving_env and cfg = sepolia_config
       and c = "''0xC''" and u = "''0xU''"
       and calls = "[Add32 500, Add8 10, AddBool True]" and st = new_client
       and ?st0.0 = new_client, THEN conjunct2]
  by (simp add: ensureInitialized_serving handle_of_def kind_tag_def show_value_def
      show_int_def digit_def)


section \<open>Memoization of the engine handle\<close>

lemma ensureInitialized_Inr:
  "ensureInitialized eng en cfg st = (Inr i, st') \<Longrightarrow> instanceE st' = Some i \<and> isInitialized st'"
  by (auto simp: ensureInitialized_def initialize_def split: option.splits if_splits prod.splits sum.splits)

lemma ensureInitialized_memo:
  "instanceE st = Some i \<Longrightarrow> isInitialized st \<Longrightarrow> ensureInitialized eng en cfg st = (Inr i, st)"
  by (simp add: ensureInitialized_def)

section \<open>No validation of values\<close>

text \<open>
  C2, as the code has it. Neither the scalar operations nor the builder's add-methods
  look at the value. On a client whose initialization succeeds, \<open>encrypt8\<close>,
  \<open>encrypt16\<close>, \<open>encrypt32\<close> and \<open>encrypt64\<close> hand any value \<open>v\<close> to the engine's
  method of the same name and return what the engine returns; \<open>add8\<close> ... \<open>add64\<close>
  append any value to the builder's inputs. Whether a value is accepted is decided by
  the engine alone.
\<close>

theorem encrypt_and_add_pass_values_unchecked:
  assumes "ensureInitialized eng en cfg st = (Inr i, st')"
  shows "encrypt8 eng en cfg v st = (instance_encrypt eng i M8 (Num v), st')
       \<and> encrypt16 eng en cfg v st = (instance_encrypt eng i M16 (Num v), st')
       \<and> encrypt32 eng en cfg v st = (instance_encrypt eng i M32 (Num v), st')
       \<and> encrypt64 eng en cfg v st = (instance_encrypt eng i M64 (Big v), st')
       \<and> inputs (add8 v b) = inputs b @ [(''euint8'', Num v)]
       \<and> inputs (add16 v b) = inputs b @ [(''euint16'', Num v)]
       \<and> inputs (add32 v b) = inputs b @ [(''euint32'', Num v)]
       \<and> inputs (add64 v b) = inputs b @ [(''euint64'', Big v)]"
  using assms
  by (simp add: encrypt8_def encrypt16_def encrypt32_def encrypt64_def encrypt_with_def
      add8_def add16_def add32_def add64_def)

text \<open>With the recording engine, the values at the edges of the domains are encrypted.\<close>

theorem encrypt_and_add_pass_values_unchecked_witness:
  "fst (encrypt8 recording_engine serving_env sepolia_config 0 new_client) = Inr ''euint8:0''
   \<and> fst (encrypt8 recording_engine serving_env sepolia_config 255 new_client) = Inr ''euint8:255''
   \<and> fst (encrypt64 recording_engine serving_env sepolia_config 18446744073709551615 new_client)
       = Inr ''euint64:18446744073709551615''"
  using encrypt_and_add_pass_values_unchecked [OF ensureInitialized_serving, of 0]
    encrypt_and_add_pass_values_unchecked [OF ensureInitialized_serving, of 255]
    encrypt_and_add_pass_values_unchecked [OF ensureInitialized_serving, of 18446744073709551615]
  by (simp add: recording_engine_fields handle_of_def kind_tag_def show_value_def
      show_int_def digit_def)

text \<open>
  C2 as stated fails: for the 8-bit tag the values \<open>-1\<close> and \<open>2^8 = 256\<close> reach the
  engine and are encrypted by one that accepts them, and the builder appends them.
\<close>

theorem out_of_range_values_accepted:
  "fst (encrypt8 recording_engine serving_env sepolia_config (- 1) new_client) = Inr ''euint8:-1''
   \<and> fst (encrypt8 recording_engine serving_env sepolia_config 256 new_client) = Inr ''euint8:256''
   \<and> inputs (add8 (- 1) (createEncryptedInput ''0xC'' ''0xU'')) = [(''euint8'', Num (- 1))]
   \<and> inputs (add8 256 (createEncryptedInput ''0xC'' ''0xU'')) = [(''euint8'', Num 256)]"
  by (simp add: encrypt8_def encrypt_with_def ensureInitialized_serving add8_def
      createEncryptedInput_def recording_engine_fields handle_of_def kind_tag_def
      show_value_def show_int_def digit_def)

section \<open>A builder can be encrypted again\<close>

text \<open>
  C3, as the code has it. \<open>getEncrypted\<close> neither changes the builder nor marks it as
  used. After a call that returned a result, a further call on the same builder is not
  refused: it finds the client initialized, sends nothing to the gateway, replays the
  same inputs on a new engine input and returns the engine's result for them (the same
  result here, where the engine is a function), whatever the gateway would answer by
  then.
\<close>

theorem getEncrypted_again_same_result:
  assumes "getEncrypted eng en cfg b st = (Inr r, st')"
  shows "getEncrypted eng en' cfg b st' = (Inr r, st')"
proof -
  obtain i where init: "ensureInitialized eng en cfg st = (Inr i, st')"
    and rest: "(case instance_createEncryptedInput eng i
                  (EncryptedInputBuilderImpl.contractAddress b) (userAddress b) of
             Inl e \<Rightarrow> Inl e
           | Inr input \<Rightarrow>
               (case replay eng (inputs b) input of
                  Inl e \<Rightarrow> Inl e
                | Inr input' \<Rightarrow> input_encrypt eng input')) = Inr r"
    using assms
    by (auto simp: getEncrypted_def split: prod.splits sum.splits)
  from ensureInitialized_Inr [OF init]
  have "ensureInitialized eng en' cfg st' = (Inr i, st')"
    by (simp add: ensureInitialized_memo)
  with rest show ?thesis
    by (auto simp: getEncrypted_def split: prod.splits sum.splits)
qed

lemma getEncrypted_serving:
  "getEncrypted recording_engine serving_env sepolia_config
      (chain ''0xC'' ''0xU'' [Add32 500]) new_client =
   (Inr \<lparr>handles = [''euint32:500''], inputProof = ''proof''\<rparr>,
    \<lparr>instanceE = Some (instance_params sepolia_config (Str ''pk'')), isInitialized = True,
       trace = [Fetch ''https://gateway.sepolia.zama.ai/fhe-key'']\<rparr>)"
  by (simp add: getEncrypted_def ensureInitialized_serving chain_fields
      recording_engine_fields tagged_def kind_tag_def switch_type_def
      handle_of_def show_value_def show_int_def digit_def)

theorem getEncrypted_again_same_result_witness:
  "getEncrypted recording_engine keyless_env sepolia_config (chain ''0xC'' ''0xU'' [Add32 500])
     \<lparr>instanceE = Some (instance_params sepolia_config (Str ''pk'')), isInitialized = True,
       trace = [Fetch ''https://gateway.sepolia.zama.ai/fhe-key'']\<rparr>
   = (Inr \<lparr>handles = [''euint32:500''], inputProof = ''proof''\<rparr>,
      \<lparr>instanceE = Some (instance_params sepolia_config (Str ''pk'')), isInitialized = True,
       trace = [Fetch ''https://gateway.sepolia.zama.ai/fhe-key'']\<rparr>)"
  using getEncrypted_again_same_result [OF getEncrypted_serving, of keyless_env]
  by simp

text \<open>
  C3 as stated fails: the second \<open>getEncrypted\<close> on one builder returns a result.
\<close>

theorem second_getEncrypted_succeeds:
  "fst (getEncrypted recording_engine serving_env sepolia_config
         (chain ''0xC'' ''0xU'' [Add32 500])
         (snd (getEncrypted recording_engine serving_env sepolia_config
                 (chain ''0xC'' ''0xU'' [Add32 500]) new_client)))
   = Inr \<lparr>handles = [''euint32:500''], inputProof = ''proof''\<rparr>"
  by (simp only: getEncrypted_serving snd_conv)
    (simp add: getEncrypted_def ensureInitialized_def chain_fields
      recording_engine_fields tagged_def kind_tag_def switch_type_def
      handle_of_def show_value_def show_int_def digit_def)

section \<open>The network presets\<close>

text \<open>
  C9, as the code has it. \<open>NETWORKS\<close> holds different profiles under \<open>sepolia\<close> and
  \<open>zamaDevnet\<close>, with the chain identifiers 11155111 and 9000. Reading a key that is
  none of \<open>sepolia\<close>, \<open>zamaDevnet\<close>, \<open>zamaTestnet\<close> gives the member of that name
  inherited from the prototype if there is one, and \<open>undefined\<close> otherwise. No read
  raises an error, whatever the key.
\<close>

theorem NETWORKS_get_profiles:
  "(\<exists>p q. NETWORKS_get proto ''sepolia'' = Inr (Profile p)
       \<and> NETWORKS_get proto ''zamaDevnet'' = Inr (Profile q)
       \<and> p \<noteq> q \<and> chainId p = 11155111 \<and> chainId q = 9000 \<and> chainId p \<noteq> chainId q)
   \<and> (key \<notin> {''sepolia'', ''zamaDevnet'', ''zamaTestnet''} \<longrightarrow>
        NETWORKS_get proto key =
          Inr (case proto key of Some m \<Rightarrow> Inherited m | None \<Rightarrow> NoProperty))
   \<and> NETWORKS_get proto key \<noteq> Inl e"
  by (auto simp: NETWORKS_get_def NETWORKS_def sepolia_def zamaDevnet_def)

text \<open>
  With the standard prototype: \<open>mainnet\<close> reads as \<open>undefined\<close>, \<open>toString\<close> as the
  inherited function.
\<close>

theorem NETWORKS_get_profiles_witness:
  "NETWORKS_get Object_prototype ''mainnet'' = Inr NoProperty
   \<and> NETWORKS_get Object_prototype ''toString'' = Inr (Inherited ''toString'')"
  using NETWORKS_get_profiles [of Object_prototype "''mainnet''", THEN conjunct2, THEN conjunct1]
    NETWORKS_get_profiles [of Object_prototype "''toString''", THEN conjunct2, THEN conjunct1]
  by (simp add: Object_prototype_def)

text \<open>
  C9 as stated fails: reading \<open>doesNotExist\<close> completes and gives \<open>undefined\<close>.
\<close>

theorem unknown_network_reads_undefined:
  "NETWORKS_get Object_prototype ''doesNotExist'' = Inr NoProperty"
  by (simp add: NETWORKS_get_def NETWORKS_def Object_prototype_def)


section \<open>Polling for a decryption\<close>

lemma poll_not_ok:
  "\<not> is_ok (gateway en (length (fetches (trace st))) url) \<Longrightarrow>
     poll en url rid (Suc n) st = poll en url rid n (sleep delayMs (snd (fetch en url st)))"
  by (auto simp: is_ok_def fetch_def split: fetch_outcome.splits)

lemma fetches_append: "fetches (xs @ ys) = fetches xs @ fetches ys"
  by (simp add: fetches_def)

lemma slept_append: "slept (xs @ ys) = slept xs + slept ys"
  by (simp add: slept_def)

lemma poll_never_ok:
  assumes "\<forall>k. \<not> is_ok (gateway en k url)"
  shows "poll en url rid n st =
           (Inl (DecryptionTimeout rid),
            st\<lparr>trace := trace st @ concat (replicate n [Fetch url, Sleep delayMs])\<rparr>)"
proof (induction n arbitrary: st)
  case 0
  show ?case by simp
next
  case (Suc n)
  have "poll en url rid (Suc n) st = poll en url rid n (sleep delayMs (snd (fetch en url st)))"
    by (rule poll_not_ok) (simp add: assms)
  also have "\<dots> = (Inl (DecryptionTimeout rid),
       st\<lparr>trace := trace st @ concat (replicate (Suc n) [Fetch url, Sleep delayMs])\<rparr>)"
    by (simp add: Suc.IH sleep_def fetch_def)
  finally show ?case .
qed

lemma poll_fetch_count:
  "length (fetches (trace (snd (poll en url rid n st)))) \<le> length (fetches (trace st)) + n"
proof (induction n arbitrary: st)
  case 0
  show ?case by simp
next
  case (Suc n)
  have step: "length (fetches (trace (sleep delayMs (snd (fetch en url st))))) =
      Suc (length (fetches (trace st)))"
    by (simp add: sleep_def fetch_def fetches_append) (simp add: fetches_def)
  have tail: "length (fetches (trace (snd (poll en url rid n (sleep delayMs (snd (fetch en url st)))))))
      \<le> length (fetches (trace st)) + Suc n"
    using Suc.IH [of "sleep delayMs (snd (fetch en url st))"] step by simp
  have now: "length (fetches (trace (snd (fetch en url st)))) \<le> length (fetches (trace st)) + Suc n"
    by (simp add: fetch_def fetches_append) (simp add: fetches_def)
  show ?case
    using tail now
    by (auto simp: split_beta split: fetch_outcome.splits sum.splits prod.splits)
qed

lemma poll_error:
  "fst (poll en url rid n st) = Inl e \<Longrightarrow> e = DecryptionTimeout rid"
  by (induction n arbitrary: st)
     (auto split: fetch_outcome.splits sum.splits prod.splits if_splits)

lemma slept_replicate: "slept (concat (replicate n [Fetch url, Sleep d])) = n * d"
  by (induction n) (simp_all add: slept_def)

lemma fetches_replicate: "fetches (concat (replicate n [Fetch url, Sleep d])) = replicate n url"
  by (induction n) (simp_all add: fetches_def)

lemma new_client_trace:
  "trace new_client = []" "slept [] = 0" "fetches [] = []"
  by (simp_all add: new_client_def slept_def fetches_def)

lemma resolve_sepolia: "resolve_gatewayUrl sepolia_config = Some ''https://gateway.sepolia.zama.ai''"
  by (simp add: resolve_gatewayUrl_def js_or_def falsy_def sepolia_config_def sepolia_def)

lemma decrypt_url_7:
  "decrypt_url ''https://gateway.sepolia.zama.ai'' 7 = ''https://gateway.sepolia.zama.ai/decrypt/7''"
  by (simp add: decrypt_url_def show_int_def digit_def)

lemma not_ok_delivers_nothing: "\<not> is_ok out \<Longrightarrow> delivered out = None"
  by (simp add: is_ok_def delivered_def split: fetch_outcome.splits)

lemma poll_step_none:
  "delivered (gateway en (length (fetches (trace st))) url) = None \<Longrightarrow>
     poll en url rid (Suc n) st = poll en url rid n (sleep delayMs (snd (fetch en url st)))"
  by (auto simp: delivered_def fetch_def split: fetch_outcome.splits sum.splits if_splits)

lemma poll_step_some:
  "delivered (gateway en (length (fetches (trace st))) url) = Some v \<Longrightarrow>
     poll en url rid (Suc n) st = (Inr v, st\<lparr>trace := trace st @ [Fetch url]\<rparr>)"
  by (auto simp: delivered_def fetch_def split: fetch_outcome.splits sum.splits if_splits)

lemma fetches_after_attempt:
  "length (fetches (trace (sleep delayMs (snd (fetch en url st))))) = Suc (length (fetches (trace st)))"
  by (simp add: sleep_def fetch_def fetches_append) (simp add: fetches_def)

lemma trace_after_attempt:
  "sleep delayMs (snd (fetch en url st)) = st\<lparr>trace := trace st @ [Fetch url, Sleep delayMs]\<rparr>"
  by (simp add: sleep_def fetch_def)

lemma poll_nothing_delivered:
  "(\<forall>k<n. delivered (gateway en (length (fetches (trace st)) + k) url) = None) \<Longrightarrow>
     poll en url rid n st =
       (Inl (DecryptionTimeout rid),
        st\<lparr>trace := trace st @ concat (replicate n [Fetch url, Sleep delayMs])\<rparr>)"
proof (induction n arbitrary: st)
  case 0
  show ?case by simp
next
  case (Suc n)
  have first: "delivered (gateway en (length (fetches (trace st))) url) = None"
    using Suc.prems [rule_format, of 0] by simp
  have later: "\<forall>k<n. delivered (gateway en
      (length (fetches (trace (sleep delayMs (snd (fetch en url st))))) + k) url) = None"
    using Suc.prems [rule_format, of "Suc k" for k] by (simp add: fetches_after_attempt)
  have "poll en url rid (Suc n) st = poll en url rid n (sleep delayMs (snd (fetch en url st)))"
    by (rule poll_step_none [OF first])
  also have "\<dots> = (Inl (DecryptionTimeout rid),
       st\<lparr>trace := trace st @ concat (replicate (Suc n) [Fetch url, Sleep delayMs])\<rparr>)"
    by (simp add: Suc.IH [OF later]) (simp add: trace_after_attempt)
  finally show ?case .
qed

lemma poll_first_delivery:
  "j < n \<Longrightarrow>
   (\<forall>k<j. delivered (gateway en (length (fetches (trace st)) + k) url) = None) \<Longrightarrow>
   delivered (gateway en (length (fetches (trace st)) + j) url) = Some v \<Longrightarrow>
     poll en url rid n st =
       (Inr v, st\<lparr>trace := trace st @ concat (replicate j [Fetch url, Sleep delayMs]) @ [Fetch url]\<rparr>)"
proof (induction j arbitrary: n st)
  case 0
  then obtain m where n: "n = Suc m" by (cases n) auto
  from 0 show ?case by (simp add: n poll_step_some del: poll.simps)
next
  case (Suc j)
  then obtain m where n: "n = Suc m" and jm: "j < m" by (cases n) auto
  have first: "delivered (gateway en (length (fetches (trace st))) url) = None"
    using Suc.prems(2) [rule_format, of 0] by simp
  have later: "\<forall>k<j. delivered (gateway en
      (length (fetches (trace (sleep delayMs (snd (fetch en url st))))) + k) url) = None"
    using Suc.prems(2) [rule_format, of "Suc k" for k] by (simp add: fetches_after_attempt)
  have hit: "delivered (gateway en
      (length (fetches (trace (sleep delayMs (snd (fetch en url st))))) + j) url) = Some v"
    using Suc.prems(3) by (simp add: fetches_after_attempt)
  have "poll en url rid n st = poll en url rid m (sleep delayMs (snd (fetch en url st)))"
    unfolding n by (rule poll_step_none [OF first])
  also have "\<dots> = (Inr v, st\<lparr>trace := trace st @ concat (replicate (Suc j) [Fetch url, Sleep delayMs]) @ [Fetch url]\<rparr>)"
    by (simp add: Suc.IH [OF jm later hit]) (simp add: trace_after_attempt)
  finally show ?case .
qed

text \<open>
  C10. \<open>awaitDecryption\<close> is a function of its input: the loop is a recursion on the
  number of attempts left, and every request is taken to settle. It sends at most 30
  requests. Without a gateway URL it fails at once. With one, and \<open>n\<close> requests sent
  before the call, the attempts get the answers to the requests \<open>n\<close>, \<open>n + 1\<close>, ...
  of the gateway, and:
  \<^item> if none of the 30 attempts gets a response with \<open>response.ok\<close>, the effects are
    exactly 30 times a request followed by a delay of 2000 ms, the delay also after the
    last request, and then the timeout error for the request is thrown: 60000 ms of
    delays in all, whatever the gateway would answer to a 31st request;
  \<^item> the same holds if none of the 30 attempts delivers a value (a response with
    \<open>response.ok\<close> whose body cannot be read delivers none);
  \<^item> if attempt \<open>j\<close> (counted from 0, below 30) is the first to deliver a value, the
    effects are \<open>j\<close> times a request followed by a delay of 2000 ms and one more
    request, and the value is returned.
  It has no timeout parameter.
\<close>

theorem awaitDecryption_thirty_attempts:
  "length (fetches (trace (snd (awaitDecryption en cfg rid st)))) \<le> length (fetches (trace st)) + 30
   \<and> (resolve_gatewayUrl cfg = None \<longrightarrow>
        awaitDecryption en cfg rid st = (Inl GatewayUrlNotConfigured, st))
   \<and> (resolve_gatewayUrl cfg = Some g
        \<and> (\<forall>k<30. \<not> is_ok (gateway en (length (fetches (trace st)) + k) (decrypt_url g rid))) \<longrightarrow>
        awaitDecryption en cfg rid st =
          (Inl (DecryptionTimeout rid),
           st\<lparr>trace := trace st @ concat (replicate 30 [Fetch (decrypt_url g rid), Sleep 2000])\<rparr>)
        \<and> slept (trace (snd (awaitDecryption en cfg rid st))) = slept (trace st) + 30 * 2000)
   \<and> (resolve_gatewayUrl cfg = Some g
        \<and> (\<forall>k<30. delivered (gateway en (length (fetches (trace st)) + k) (decrypt_url g rid)) = None) \<longrightarrow>
        awaitDecryption en cfg rid st =
          (Inl (DecryptionTimeout rid),
           st\<lparr>trace := trace st @ concat (replicate 30 [Fetch (decrypt_url g rid), Sleep 2000])\<rparr>))
   \<and> (resolve_gatewayUrl cfg = Some g \<and> j < 30
        \<and> (\<forall>k<j. delivered (gateway en (length (fetches (trace st)) + k) (decrypt_url g rid)) = None)
        \<and> delivered (gateway en (length (fetches (trace st)) + j) (decrypt_url g rid)) = Some v \<longrightarrow>
        awaitDecryption en cfg rid st =
          (Inr v,
           st\<lparr>trace := trace st @ concat (replicate j [Fetch (decrypt_url g rid), Sleep 2000])
                           @ [Fetch (decrypt_url g rid)]\<rparr>))"
proof (intro conjI impI)
  show "length (fetches (trace (snd (awaitDecryption en cfg rid st)))) \<le> length (fetches (trace st)) + 30"
    using poll_fetch_count [of en _ rid maxAttempts st]
    by (simp add: awaitDecryption_def maxAttempts_def split: option.splits)
next
  assume "resolve_gatewayUrl cfg = None"
  then show "awaitDecryption en cfg rid st = (Inl GatewayUrlNotConfigured, st)"
    by (simp add: awaitDecryption_def)
next
  assume a: "resolve_gatewayUrl cfg = Some g
        \<and> (\<forall>k<30. delivered (gateway en (length (fetches (trace st)) + k) (decrypt_url g rid)) = None)"
  then have "\<forall>k<maxAttempts. delivered (gateway en (length (fetches (trace st)) + k) (decrypt_url g rid)) = None"
    by (simp add: maxAttempts_def)
  from poll_nothing_delivered [OF this, of rid] a
  show "awaitDecryption en cfg rid st =
          (Inl (DecryptionTimeout rid),
           st\<lparr>trace := trace st @ concat (replicate 30 [Fetch (decrypt_url g rid), Sleep 2000])\<rparr>)"
    by (simp add: awaitDecryption_def maxAttempts_def delayMs_def)
next
  assume a: "resolve_gatewayUrl cfg = Some g \<and> j < 30
        \<and> (\<forall>k<j. delivered (gateway en (length (fetches (trace st)) + k) (decrypt_url g rid)) = None)
        \<and> delivered (gateway en (length (fetches (trace st)) + j) (decrypt_url g rid)) = Some v"
  then have j: "j < maxAttempts"
    and none: "\<forall>k<j. delivered (gateway en (length (fetches (trace st)) + k) (decrypt_url g rid)) = None"
    and hit: "delivered (gateway en (length (fetches (trace st)) + j) (decrypt_url g rid)) = Some v"
    by (simp_all add: maxAttempts_def)
  from poll_first_delivery [OF j none hit, of rid] a
  show "awaitDecryption en cfg rid st =
          (Inr v,
           st\<lparr>trace := trace st @ concat (replicate j [Fetch (decrypt_url g rid), Sleep 2000])
                           @ [Fetch (decrypt_url g rid)]\<rparr>)"
    by (simp add: awaitDecryption_def delayMs_def)
next
  assume a: "resolve_gatewayUrl cfg = Some g
        \<and> (\<forall>k<30. \<not> is_ok (gateway en (length (fetches (trace st)) + k) (decrypt_url g rid)))"
  then have "\<forall>k<maxAttempts. delivered (gateway en (length (fetches (trace st)) + k) (decrypt_url g rid)) = None"
    by (simp add: maxAttempts_def not_ok_delivers_nothing)
  from poll_nothing_delivered [OF this, of rid] a
  have eq: "awaitDecryption en cfg rid st =
          (Inl (DecryptionTimeout rid),
           st\<lparr>trace := trace st @ concat (replicate 30 [Fetch (decrypt_url g rid), Sleep 2000])\<rparr>)"
    by (simp add: awaitDecryption_def maxAttempts_def delayMs_def)
  then show "awaitDecryption en cfg rid st =
          (Inl (DecryptionTimeout rid),
           st\<lparr>trace := trace st @ concat (replicate 30 [Fetch (decrypt_url g rid), Sleep 2000])\<rparr>)" .
  show "slept (trace (snd (awaitDecryption en cfg rid st))) = slept (trace st) + 30 * 2000"
    unfolding eq by (simp add: slept_append slept_replicate)
qed


text \<open>
  A gateway that refuses the 30 attempts and would serve the 31st: the timeout, after
  60000 ms of delays. A gateway that refuses the first attempt and serves the second:
  the plaintext.
\<close>

theorem awaitDecryption_thirty_attempts_witness:
  "fst (awaitDecryption late_serving_env sepolia_config 7 (new_client :: unit state))
     = Inl (DecryptionTimeout 7)
   \<and> slept (trace (snd (awaitDecryption late_serving_env sepolia_config 7 (new_client :: unit state))))
     = 60000
   \<and> fst (awaitDecryption rejecting_then_serving_env sepolia_config 7 (new_client :: unit state))
     = Inr (Big 42)"
proof -
  have h: "resolve_gatewayUrl sepolia_config = Some ''https://gateway.sepolia.zama.ai''
      \<and> (\<forall>k<30. \<not> is_ok (gateway late_serving_env
                (length (fetches (trace (new_client :: unit state))) + k)
                (decrypt_url ''https://gateway.sepolia.zama.ai'' 7)))"
    by (simp add: resolve_sepolia is_ok_def late_serving_env_def new_client_trace)
  have h': "resolve_gatewayUrl sepolia_config = Some ''https://gateway.sepolia.zama.ai'' \<and> 1 < (30 :: nat)
      \<and> (\<forall>k<1. delivered (gateway rejecting_then_serving_env
                (length (fetches (trace (new_client :: unit state))) + k)
                (decrypt_url ''https://gateway.sepolia.zama.ai'' 7)) = None)
      \<and> delivered (gateway rejecting_then_serving_env
                (length (fetches (trace (new_client :: unit state))) + 1)
                (decrypt_url ''https://gateway.sepolia.zama.ai'' 7)) = Some (Big 42)"
    by (simp add: resolve_sepolia delivered_def rejecting_then_serving_env_def new_client_trace
        json_field_def)
  from awaitDecryption_thirty_attempts
      [THEN conjunct2, THEN conjunct2, THEN conjunct1, THEN mp, OF h]
    awaitDecryption_thirty_attempts
      [THEN conjunct2, THEN conjunct2, THEN conjunct2, THEN conjunct2, THEN mp, OF h']
  show ?thesis
    by (simp add: new_client_trace slept_replicate)
qed


text \<open>
  C5, the code at a gateway that never answers with success (every response has a
  non-success status): a call \<open>awaitDecryption(7n)\<close> makes 30 requests and throws the
  timeout only after delays of 60000 ms in all. The function takes the request
  identifier alone; there is no timeout of 30000 ms and none that a caller can set.
\<close>

theorem awaitDecryption_default_wait_sixty_seconds:
  "fst (awaitDecryption failing_status_env sepolia_config 7 (new_client :: unit state))
     = Inl (DecryptionTimeout 7)
   \<and> slept (trace (snd (awaitDecryption failing_status_env sepolia_config 7 (new_client :: unit state))))
     = 60000
   \<and> length (fetches (trace (snd (awaitDecryption failing_status_env sepolia_config 7
        (new_client :: unit state))))) = 30"
proof -
  have never: "\<forall>k. \<not> is_ok (gateway failing_status_env k u)" for u
    by (simp add: is_ok_def failing_status_env_def)
  show ?thesis
    by (simp add: awaitDecryption_def resolve_sepolia poll_never_ok [OF never]
        slept_append slept_replicate fetches_append fetches_replicate
        maxAttempts_def delayMs_def new_client_trace)
qed

text \<open>
  C6, as the code has it. An attempt that gets no response with \<open>response.ok\<close>, be it
  a thrown network error or a response with a non-success status and whatever body, is
  followed by the delay and by the next attempt. \<open>awaitDecryption\<close> fails in two ways
  only: no gateway URL is configured, or the attempts are used up (the timeout).
\<close>

theorem poll_swallows_every_failure:
  "(\<not> is_ok (gateway en (length (fetches (trace st))) url) \<longrightarrow>
      poll en url rid (Suc n) st = poll en url rid n (sleep delayMs (snd (fetch en url st))))
   \<and> (fst (awaitDecryption en cfg rid st) = Inl e \<longrightarrow>
        e = GatewayUrlNotConfigured \<or> e = DecryptionTimeout rid)"
proof
  show "\<not> is_ok (gateway en (length (fetches (trace st))) url) \<longrightarrow>
      poll en url rid (Suc n) st = poll en url rid n (sleep delayMs (snd (fetch en url st)))"
    using poll_not_ok [of en st url rid n] by blast
  show "fst (awaitDecryption en cfg rid st) = Inl e \<longrightarrow>
        e = GatewayUrlNotConfigured \<or> e = DecryptionTimeout rid"
    using poll_error [of en _ rid maxAttempts st e]
    by (auto simp: awaitDecryption_def split: option.splits)
qed

text \<open>
  With two attempts left and a gateway that rejects the request at the first one, the
  second attempt is made, after the delay, and returns the plaintext.
\<close>

theorem poll_swallows_every_failure_witness:
  "poll rejecting_then_serving_env ''https://gateway.sepolia.zama.ai/decrypt/7'' 7 (Suc 1)
     (new_client :: unit state)
   = (Inr (Big 42),
      \<lparr>instanceE = None, isInitialized = False,
       trace = [Fetch ''https://gateway.sepolia.zama.ai/decrypt/7'', Sleep 2000,
                Fetch ''https://gateway.sepolia.zama.ai/decrypt/7'']\<rparr>)"
  using poll_swallows_every_failure
    [where en = rejecting_then_serving_env and st = "new_client :: unit state"
       and url = "''https://gateway.sepolia.zama.ai/decrypt/7''" and rid = 7 and n = 1,
     THEN conjunct1]
  by (simp add: is_ok_def rejecting_then_serving_env_def new_client_def fetches_def
      fetch_def sleep_def delayMs_def json_field_def)

text \<open>
  C6 as stated fails: the gateway reports the request as rejected at the first attempt;
  \<open>awaitDecryption\<close> does not fail, it waits, asks again and returns the plaintext.
\<close>

theorem rejection_does_not_stop_polling:
  "awaitDecryption rejecting_then_serving_env sepolia_config 7 (new_client :: unit state)
   = (Inr (Big 42),
      \<lparr>instanceE = None, isInitialized = False,
       trace = [Fetch ''https://gateway.sepolia.zama.ai/decrypt/7'', Sleep 2000,
                Fetch ''https://gateway.sepolia.zama.ai/decrypt/7'']\<rparr>)"
proof -
  have two: "poll rejecting_then_serving_env ''https://gateway.sepolia.zama.ai/decrypt/7'' 7
       (Suc (Suc n)) (new_client :: unit state)
     = (Inr (Big 42),
        \<lparr>instanceE = None, isInitialized = False,
         trace = [Fetch ''https://gateway.sepolia.zama.ai/decrypt/7'', Sleep 2000,
                  Fetch ''https://gateway.sepolia.zama.ai/decrypt/7'']\<rparr>)" for n
    by (simp add: rejecting_then_serving_env_def new_client_def fetches_def
        fetch_def sleep_def delayMs_def json_field_def)
  have m: "maxAttempts = Suc (Suc 28)"
    by (simp add: maxAttempts_def)
  show ?thesis
    by (simp only: awaitDecryption_def resolve_sepolia option.case decrypt_url_7 m two)
qed


section \<open>Initialization: the gateway URL and the public key\<close>

text \<open>
  C7, as the code has it. The gateway URL is the override of the configuration if that
  is a non-empty string, otherwise the URL of the network profile if that is a
  non-empty string; with neither, the first use of the client fails with
  \<open>Gateway URL not configured\<close> and sends nothing. Otherwise the first use sends one
  GET to the URL followed by \<open>/fhe-key\<close> and takes the \<open>publicKey\<close> field of the
  body as the key, whatever the status of the response; a missing field reads as
  \<open>undefined\<close>, and the engine is created with it. The fetch fails only where
  \<open>fetch\<close> itself throws, the body is not JSON, or the body is \<open>null\<close>.
\<close>

theorem initialization_fetches_the_key:
  "resolve_gatewayUrl cfg =
     (if \<not> falsy (FhevmConfig.gatewayUrl cfg) then FhevmConfig.gatewayUrl cfg
      else if \<not> falsy (NetworkConfig.gatewayUrl (network cfg))
           then NetworkConfig.gatewayUrl (network cfg)
      else None)
   \<and> (instanceE st = None \<and> resolve_gatewayUrl cfg = None \<longrightarrow>
        ensureInitialized eng en cfg st = (Inl GatewayUrlNotConfigured, st))
   \<and> (instanceE st = None \<and> resolve_gatewayUrl cfg = Some g \<longrightarrow>
        trace (snd (ensureInitialized eng en cfg st)) = trace st @ [Fetch (g @ ''/fhe-key'')]
        \<and> fst (ensureInitialized eng en cfg st) =
            (case gateway en (length (fetches (trace st))) (g @ ''/fhe-key'') of
               Rejected \<Rightarrow> Inl (Thrown ''fetch'')
             | Response ok b \<Rightarrow>
                 (case json_field b ''publicKey'' of
                    Inl e \<Rightarrow> Inl e
                  | Inr pk \<Rightarrow> createInstance eng (instance_params cfg pk))))"
proof (intro conjI impI)
  show "resolve_gatewayUrl cfg =
     (if \<not> falsy (FhevmConfig.gatewayUrl cfg) then FhevmConfig.gatewayUrl cfg
      else if \<not> falsy (NetworkConfig.gatewayUrl (network cfg))
           then NetworkConfig.gatewayUrl (network cfg)
      else None)"
    by (simp add: resolve_gatewayUrl_def js_or_def)
next
  assume "instanceE st = None \<and> resolve_gatewayUrl cfg = None"
  then show "ensureInitialized eng en cfg st = (Inl GatewayUrlNotConfigured, st)"
    by (simp add: ensureInitialized_def initialize_def getPublicKey_def)
next
  assume a: "instanceE st = None \<and> resolve_gatewayUrl cfg = Some g"
  then show "trace (snd (ensureInitialized eng en cfg st)) = trace st @ [Fetch (g @ ''/fhe-key'')]"
    by (simp add: ensureInitialized_def initialize_def getPublicKey_def fetch_def
        split: fetch_outcome.splits sum.splits)
  from a show "fst (ensureInitialized eng en cfg st) =
            (case gateway en (length (fetches (trace st))) (g @ ''/fhe-key'') of
               Rejected \<Rightarrow> Inl (Thrown ''fetch'')
             | Response ok b \<Rightarrow>
                 (case json_field b ''publicKey'' of
                    Inl e \<Rightarrow> Inl e
                  | Inr pk \<Rightarrow> createInstance eng (instance_params cfg pk)))"
    by (simp add: ensureInitialized_def initialize_def getPublicKey_def fetch_def
        split: fetch_outcome.splits sum.splits)
qed

text \<open>A new client for Sepolia, at a gateway that serves the key.\<close>

theorem initialization_fetches_the_key_witness:
  "trace (snd (ensureInitialized recording_engine serving_env sepolia_config new_client))
     = [Fetch ''https://gateway.sepolia.zama.ai/fhe-key'']
   \<and> fst (ensureInitialized recording_engine serving_env sepolia_config new_client)
     = Inr (instance_params sepolia_config (Str ''pk''))"
proof -
  have h: "instanceE (new_client :: InstanceParams state) = None
      \<and> resolve_gatewayUrl sepolia_config = Some ''https://gateway.sepolia.zama.ai''"
    by (simp add: resolve_sepolia new_client_def)
  from initialization_fetches_the_key [THEN conjunct2, THEN conjunct2, THEN mp, OF h,
      of recording_engine serving_env]
  show ?thesis
    by (simp add: new_client_trace serving_env_def json_field_def recording_engine_fields)
qed

text \<open>
  C7 as stated fails: a response with a non-success status that carries a key, and a
  success response without the \<open>publicKey\<close> field, both let the initialization
  complete; in the second case the engine is created with the key \<open>undefined\<close>.
\<close>

theorem key_accepted_without_checks:
  "fst (ensureInitialized recording_engine failing_status_env sepolia_config new_client)
     = Inr (instance_params sepolia_config (Str ''pk''))
   \<and> fst (ensureInitialized recording_engine keyless_env sepolia_config new_client)
     = Inr (instance_params sepolia_config Undefined)"
  by (simp add: ensureInitialized_def initialize_def getPublicKey_def resolve_sepolia
      fetch_def json_field_def new_client_def failing_status_env_def keyless_env_def
      recording_engine_fields)

section \<open>Request identifiers\<close>

lemma requestDecryption_eq:
  "requestDecryption en ct addr st =
     (\<lparr>requestId = clock en (length (filter is_now (trace st))), ciphertext = ct,
       contractAddress = addr,
       timestamp = clock en (Suc (length (filter is_now (trace st))))\<rparr>,
      st\<lparr>trace := trace st @ [Now, Now]\<rparr>)"
  by (simp add: requestDecryption_def date_now_def is_now_def)

text \<open>
  C8, as the code has it. \<open>requestDecryption\<close> reads the clock twice and sends nothing
  to the gateway: \<open>requestId\<close> is the first reading, \<open>timestamp\<close> the second. Of two
  requests made one after the other, the identifiers are equal exactly when the clock
  shows the same millisecond at their first readings.
\<close>

theorem requestDecryption_reads_the_clock:
  "requestDecryption en ct addr st =
     (\<lparr>requestId = clock en (length (filter is_now (trace st))), ciphertext = ct,
       contractAddress = addr,
       timestamp = clock en (Suc (length (filter is_now (trace st))))\<rparr>,
      st\<lparr>trace := trace st @ [Now, Now]\<rparr>)
   \<and> fetches (trace (snd (requestDecryption en ct addr st))) = fetches (trace st)
   \<and> (requestId (fst (requestDecryption en ct' addr' (snd (requestDecryption en ct addr st))))
        = requestId (fst (requestDecryption en ct addr st)))
     = (clock en (length (filter is_now (trace st)) + 2) = clock en (length (filter is_now (trace st))))"
  by (simp add: requestDecryption_eq fetches_append is_now_def) (simp add: fetches_def)

text \<open>With a clock that advances at each reading, the identifiers differ.\<close>

theorem requestDecryption_reads_the_clock_witness:
  "requestId (fst (requestDecryption serving_env ''ct2'' ''0xC''
        (snd (requestDecryption serving_env ''ct1'' ''0xC'' (new_client :: unit state)))))
     \<noteq> requestId (fst (requestDecryption serving_env ''ct1'' ''0xC'' (new_client :: unit state)))"
  using requestDecryption_reads_the_clock
    [where en = serving_env and ct = "''ct1''" and addr = "''0xC''" and ct' = "''ct2''"
       and addr' = "''0xC''" and st = "new_client :: unit state",
     THEN conjunct2, THEN conjunct2]
  by (simp add: serving_env_def)

text \<open>
  C8 as stated fails: two requests of one client within one millisecond, both
  outstanding, have the same \<open>requestId\<close>.
\<close>

theorem same_millisecond_same_requestId:
  "requestId (fst (requestDecryption frozen_clock_env ''ct2'' ''0xC''
        (snd (requestDecryption frozen_clock_env ''ct1'' ''0xC'' (new_client :: unit state)))))
     = requestId (fst (requestDecryption frozen_clock_env ''ct1'' ''0xC'' (new_client :: unit state)))"
  by (simp add: requestDecryption_eq frozen_clock_env_def)

section \<open>Initialization when calls overlap\<close>

lemma run_alone:
  "run eng en cfg [0, 0, 0, 0, 0] ([Ready], st) =
     ([Done (fst (ensureInitialized eng en cfg st))], snd (ensureInitialized eng en cfg st))"
  by (simp add: ensureInitialized_def initialize_def getPublicKey_def begin_initialize_def
      split: option.splits prod.splits sum.splits fetch_outcome.splits)

lemma fetches_snoc: "fetches (tr @ [Fetch u]) = fetches tr @ [u]"
  by (simp add: fetches_def)

lemma poll_keeps_client:
  "instanceE (snd (poll en url rid n st)) = instanceE st
   \<and> isInitialized (snd (poll en url rid n st)) = isInitialized st"
  by (induction n arbitrary: st)
     (auto simp: fetch_def sleep_def split: fetch_outcome.splits sum.splits)

lemma resume_begun:
  "t \<noteq> Ready \<Longrightarrow> fst (resume eng en cfg t st) = fst (resume eng en cfg t st2)
     \<and> trace (snd (resume eng en cfg t st)) = trace st"
  by (induction eng en cfg t st rule: resume.induct) auto

lemma nested_overlap:
  assumes "instanceE st = None \<or> \<not> isInitialized st"
    and "resolve_gatewayUrl cfg = Some g"
    and "gateway en (length (fetches (trace st))) (g @ ''/fhe-key'') = Response ok0 b0"
    and "gateway en (Suc (length (fetches (trace st)))) (g @ ''/fhe-key'') = Response ok1 b1"
    and "json_field b0 ''publicKey'' = Inr pk0"
    and "json_field b1 ''publicKey'' = Inr pk1"
    and "createInstance eng (instance_params cfg pk0) = Inr i0"
    and "createInstance eng (instance_params cfg pk1) = Inr i1"
  shows "run eng en cfg [0, 1, 0, 0, 0, 0] ([Ready, Ready], st) =
          ([Done (Inr i0), AwaitFetch (Response ok1 b1)],
           st\<lparr>instanceE := Some i0, isInitialized := True,
              trace := trace st @ [Fetch (g @ ''/fhe-key''), Fetch (g @ ''/fhe-key'')]\<rparr>)"
    and "run eng en cfg [0, 1, 0, 0, 0, 0, 1, 1, 1, 1] ([Ready, Ready], st) =
          ([Done (Inr i0), Done (Inr i1)],
           st\<lparr>instanceE := Some i1, isInitialized := True,
              trace := trace st @ [Fetch (g @ ''/fhe-key''), Fetch (g @ ''/fhe-key'')]\<rparr>)"
  using assms
  by (auto simp: begin_initialize_def fetch_def fetches_snoc split: option.splits)


text \<open>
  C4, as the code has it. The handle is memoized when an initialization completes, and
  there is no guard for an initialization in flight. In the order of the statement:
  \<^item> a call of \<open>ensureInitialized\<close> that returns a handle has stored it, and a call
    made in the state it leaves returns that handle and changes nothing;
  \<^item> on a client that holds a handle, \<open>ensureInitialized\<close>, a call that begins, the
    six scalar operations and \<open>getEncrypted\<close> use that handle and leave the state as
    it is: no request, no engine construction;
  \<^item> \<open>requestDecryption\<close> and \<open>awaitDecryption\<close> never initialize;
  \<^item> a call resumed five times on its own does what \<open>ensureInitialized\<close> does;
  \<^item> a call that begins while the client holds no handle, with a gateway URL
    configured, sends its own request for the key before it is suspended for the first
    time;
  \<^item> a call that has begun proceeds by what it awaits alone, whatever the state of the
    client has become in the meantime;
  \<^item> of two calls that begin on a client without a handle, the second before the
    first has completed, each sends a request; when the requests yield the keys
    \<open>pk0\<close> and \<open>pk1\<close> and the engine accepts them, the first call completes with its
    engine \<open>i0\<close> as the handle, and the second call, resumed afterwards, still creates
    its own engine \<open>i1\<close> from its own key, returns it and replaces the handle by it.
\<close>

theorem initialization_memoized_once_complete:
  "(ensureInitialized eng en cfg st = (Inr i, st') \<longrightarrow>
      instanceE st' = Some i \<and> isInitialized st'
      \<and> ensureInitialized eng en' cfg st' = (Inr i, st'))
   \<and> (instanceE st = Some i \<and> isInitialized st \<longrightarrow>
        ensureInitialized eng en cfg st = (Inr i, st)
        \<and> resume eng en cfg Ready st = (Done (Inr i), st)
        \<and> encrypt_with m eng en cfg v st = (instance_encrypt eng i m v, st)
        \<and> getEncrypted eng en cfg b st =
            (case instance_createEncryptedInput eng i
                    (EncryptedInputBuilderImpl.contractAddress b) (userAddress b) of
               Inl e \<Rightarrow> Inl e
             | Inr input \<Rightarrow>
                 (case replay eng (inputs b) input of
                    Inl e \<Rightarrow> Inl e
                  | Inr input' \<Rightarrow> input_encrypt eng input'), st))
   \<and> (instanceE (snd (requestDecryption en ct addr st)) = instanceE st
        \<and> isInitialized (snd (requestDecryption en ct addr st)) = isInitialized st
        \<and> instanceE (snd (awaitDecryption en cfg rid st)) = instanceE st
        \<and> isInitialized (snd (awaitDecryption en cfg rid st)) = isInitialized st)
   \<and> run eng en cfg [0, 0, 0, 0, 0] ([Ready], st) =
       ([Done (fst (ensureInitialized eng en cfg st))], snd (ensureInitialized eng en cfg st))
   \<and> ((instanceE st = None \<or> \<not> isInitialized st) \<and> resolve_gatewayUrl cfg = Some g \<longrightarrow>
        resume eng en cfg Ready st =
          (AwaitFetch (gateway en (length (fetches (trace st))) (g @ ''/fhe-key'')),
           st\<lparr>trace := trace st @ [Fetch (g @ ''/fhe-key'')]\<rparr>))
   \<and> (t \<noteq> Ready \<longrightarrow>
        fst (resume eng en cfg t st) = fst (resume eng en cfg t st2)
        \<and> trace (snd (resume eng en cfg t st)) = trace st)
   \<and> ((instanceE st = None \<or> \<not> isInitialized st) \<and> resolve_gatewayUrl cfg = Some g
        \<and> gateway en (length (fetches (trace st))) (g @ ''/fhe-key'') = Response ok0 b0
        \<and> gateway en (Suc (length (fetches (trace st)))) (g @ ''/fhe-key'') = Response ok1 b1
        \<and> json_field b0 ''publicKey'' = Inr pk0 \<and> json_field b1 ''publicKey'' = Inr pk1
        \<and> createInstance eng (instance_params cfg pk0) = Inr i0
        \<and> createInstance eng (instance_params cfg pk1) = Inr i1 \<longrightarrow>
        run eng en cfg [0, 1, 0, 0, 0, 0] ([Ready, Ready], st) =
          ([Done (Inr i0), AwaitFetch (Response ok1 b1)],
           st\<lparr>instanceE := Some i0, isInitialized := True,
              trace := trace st @ [Fetch (g @ ''/fhe-key''), Fetch (g @ ''/fhe-key'')]\<rparr>)
        \<and> run eng en cfg [0, 1, 0, 0, 0, 0, 1, 1, 1, 1] ([Ready, Ready], st) =
          ([Done (Inr i0), Done (Inr i1)],
           st\<lparr>instanceE := Some i1, isInitialized := True,
              trace := trace st @ [Fetch (g @ ''/fhe-key''), Fetch (g @ ''/fhe-key'')]\<rparr>))"
proof (intro conjI impI)
  assume a: "ensureInitialized eng en cfg st = (Inr i, st')"
  from ensureInitialized_Inr [OF a] show "instanceE st' = Some i" and "isInitialized st'"
    by simp_all
  from ensureInitialized_Inr [OF a] show "ensureInitialized eng en' cfg st' = (Inr i, st')"
    by (simp add: ensureInitialized_memo)
next
  assume a: "instanceE st = Some i \<and> isInitialized st"
  then show init: "ensureInitialized eng en cfg st = (Inr i, st)"
    by (simp add: ensureInitialized_memo)
  from a show "resume eng en cfg Ready st = (Done (Inr i), st)"
    by simp
  from init show "encrypt_with m eng en cfg v st = (instance_encrypt eng i m v, st)"
    by (simp add: encrypt_with_def)
  from init show "getEncrypted eng en cfg b st =
            (case instance_createEncryptedInput eng i
                    (EncryptedInputBuilderImpl.contractAddress b) (userAddress b) of
               Inl e \<Rightarrow> Inl e
             | Inr input \<Rightarrow>
                 (case replay eng (inputs b) input of
                    Inl e \<Rightarrow> Inl e
                  | Inr input' \<Rightarrow> input_encrypt eng input'), st)"
    by (simp add: getEncrypted_def split: sum.splits)
next
  show "instanceE (snd (requestDecryption en ct addr st)) = instanceE st"
    and "isInitialized (snd (requestDecryption en ct addr st)) = isInitialized st"
    by (simp_all add: requestDecryption_eq)
  show "instanceE (snd (awaitDecryption en cfg rid st)) = instanceE st"
    and "isInitialized (snd (awaitDecryption en cfg rid st)) = isInitialized st"
    by (simp_all add: awaitDecryption_def poll_keeps_client split: option.splits)
next
  show "run eng en cfg [0, 0, 0, 0, 0] ([Ready], st) =
       ([Done (fst (ensureInitialized eng en cfg st))], snd (ensureInitialized eng en cfg st))"
    by (rule run_alone)
next
  assume "(instanceE st = None \<or> \<not> isInitialized st) \<and> resolve_gatewayUrl cfg = Some g"
  then show "resume eng en cfg Ready st =
          (AwaitFetch (gateway en (length (fetches (trace st))) (g @ ''/fhe-key'')),
           st\<lparr>trace := trace st @ [Fetch (g @ ''/fhe-key'')]\<rparr>)"
    by (auto simp: begin_initialize_def fetch_def split: option.splits)
next
  assume "t \<noteq> Ready"
  from resume_begun [OF this]
  show "fst (resume eng en cfg t st) = fst (resume eng en cfg t st2)"
    and "trace (snd (resume eng en cfg t st)) = trace st"
    by blast+
next
  assume a: "(instanceE st = None \<or> \<not> isInitialized st) \<and> resolve_gatewayUrl cfg = Some g
        \<and> gateway en (length (fetches (trace st))) (g @ ''/fhe-key'') = Response ok0 b0
        \<and> gateway en (Suc (length (fetches (trace st)))) (g @ ''/fhe-key'') = Response ok1 b1
        \<and> json_field b0 ''publicKey'' = Inr pk0 \<and> json_field b1 ''publicKey'' = Inr pk1
        \<and> createInstance eng (instance_params cfg pk0) = Inr i0
        \<and> createInstance eng (instance_params cfg pk1) = Inr i1"
  then have u: "instanceE st = None \<or> \<not> isInitialized st"
    and r: "resolve_gatewayUrl cfg = Some g"
    and g0: "gateway en (length (fetches (trace st))) (g @ ''/fhe-key'') = Response ok0 b0"
    and g1: "gateway en (Suc (length (fetches (trace st)))) (g @ ''/fhe-key'') = Response ok1 b1"
    and j0: "json_field b0 ''publicKey'' = Inr pk0"
    and j1: "json_field b1 ''publicKey'' = Inr pk1"
    and c0: "createInstance eng (instance_params cfg pk0) = Inr i0"
    and c1: "createInstance eng (instance_params cfg pk1) = Inr i1"
    by blast+
  show "run eng en cfg [0, 1, 0, 0, 0, 0] ([Ready, Ready], st) =
          ([Done (Inr i0), AwaitFetch (Response ok1 b1)],
           st\<lparr>instanceE := Some i0, isInitialized := True,
              trace := trace st @ [Fetch (g @ ''/fhe-key''), Fetch (g @ ''/fhe-key'')]\<rparr>)"
    by (rule nested_overlap(1) [OF u r g0 g1 j0 j1 c0 c1])
  show "run eng en cfg [0, 1, 0, 0, 0, 0, 1, 1, 1, 1] ([Ready, Ready], st) =
          ([Done (Inr i0), Done (Inr i1)],
           st\<lparr>instanceE := Some i1, isInitialized := True,
              trace := trace st @ [Fetch (g @ ''/fhe-key''), Fetch (g @ ''/fhe-key'')]\<rparr>)"
    by (rule nested_overlap(2) [OF u r g0 g1 j0 j1 c0 c1])
qed

text \<open>
  A later call on a client that holds a handle, and two overlapping first calls at a
  gateway that serves two different keys.
\<close>

theorem initialization_memoized_once_complete_witness:
  "ensureInitialized recording_engine keyless_env sepolia_config
     \<lparr>instanceE = Some (instance_params sepolia_config (Str ''pk'')), isInitialized = True,
       trace = [Fetch ''https://gateway.sepolia.zama.ai/fhe-key'']\<rparr>
   = (Inr (instance_params sepolia_config (Str ''pk'')),
      \<lparr>instanceE = Some (instance_params sepolia_config (Str ''pk'')), isInitialized = True,
       trace = [Fetch ''https://gateway.sepolia.zama.ai/fhe-key'']\<rparr>)
   \<and> run recording_engine two_keys_env sepolia_config [0, 1, 0, 0, 0, 0, 1, 1, 1, 1]
        ([Ready, Ready], new_client)
     = ([Done (Inr (instance_params sepolia_config (Str ''pk0''))),
         Done (Inr (instance_params sepolia_config (Str ''pk1'')))],
        \<lparr>instanceE = Some (instance_params sepolia_config (Str ''pk1'')), isInitialized = True,
         trace = [Fetch ''https://gateway.sepolia.zama.ai/fhe-key'',
                  Fetch ''https://gateway.sepolia.zama.ai/fhe-key'']\<rparr>)"
proof -
  have first: "ensureInitialized recording_engine keyless_env sepolia_config
     \<lparr>instanceE = Some (instance_params sepolia_config (Str ''pk'')), isInitialized = True,
       trace = [Fetch ''https://gateway.sepolia.zama.ai/fhe-key'']\<rparr>
   = (Inr (instance_params sepolia_config (Str ''pk'')),
      \<lparr>instanceE = Some (instance_params sepolia_config (Str ''pk'')), isInitialized = True,
       trace = [Fetch ''https://gateway.sepolia.zama.ai/fhe-key'']\<rparr>)"
    using initialization_memoized_once_complete
      [THEN conjunct1, THEN mp, OF ensureInitialized_serving, of keyless_env]
    by simp
  have h: "(instanceE (new_client :: InstanceParams state) = None
        \<or> \<not> isInitialized (new_client :: InstanceParams state))
      \<and> resolve_gatewayUrl sepolia_config = Some ''https://gateway.sepolia.zama.ai''
      \<and> gateway two_keys_env (length (fetches (trace (new_client :: InstanceParams state))))
           (''https://gateway.sepolia.zama.ai'' @ ''/fhe-key'')
         = Response True (JsonObject (\<lambda>f. if f = ''publicKey'' then Some (Str ''pk0'') else None))
      \<and> gateway two_keys_env (Suc (length (fetches (trace (new_client :: InstanceParams state)))))
           (''https://gateway.sepolia.zama.ai'' @ ''/fhe-key'')
         = Response True (JsonObject (\<lambda>f. if f = ''publicKey'' then Some (Str ''pk1'') else None))
      \<and> json_field (JsonObject (\<lambda>f. if f = ''publicKey'' then Some (Str ''pk0'') else None))
           ''publicKey'' = Inr (Str ''pk0'')
      \<and> json_field (JsonObject (\<lambda>f. if f = ''publicKey'' then Some (Str ''pk1'') else None))
           ''publicKey'' = Inr (Str ''pk1'')
      \<and> createInstance recording_engine (instance_params sepolia_config (Str ''pk0''))
         = Inr (instance_params sepolia_config (Str ''pk0''))
      \<and> createInstance recording_engine (instance_params sepolia_config (Str ''pk1''))
         = Inr (instance_params sepolia_config (Str ''pk1''))"
    by (simp add: new_client_trace resolve_sepolia two_keys_env_def json_field_def
        recording_engine_fields) (simp add: new_client_def)
  have second: "run recording_engine two_keys_env sepolia_config [0, 1, 0, 0, 0, 0, 1, 1, 1, 1]
        ([Ready, Ready], new_client)
     = ([Done (Inr (instance_params sepolia_config (Str ''pk0''))),
         Done (Inr (instance_params sepolia_config (Str ''pk1'')))],
        \<lparr>instanceE = Some (instance_params sepolia_config (Str ''pk1'')), isInitialized = True,
         trace = [Fetch ''https://gateway.sepolia.zama.ai/fhe-key'',
                  Fetch ''https://gateway.sepolia.zama.ai/fhe-key'']\<rparr>)"
    using initialization_memoized_once_complete
      [THEN conjunct2, THEN conjunct2, THEN conjunct2, THEN conjunct2, THEN conjunct2,
       THEN conjunct2, THEN mp, OF h, THEN conjunct2]
    by (simp add: new_client_def)
  from first second show ?thesis by simp
qed


text \<open>
  C4 as stated fails: two first calls on a new client, the second begun before the
  first has completed, send two requests for the public key (and create two engines).
\<close>

theorem overlapping_calls_fetch_twice:
  "run recording_engine serving_env sepolia_config [0, 1, 0, 1, 0, 1, 0, 1, 0, 1]
     ([Ready, Ready], new_client)
   = ([Done (Inr (instance_params sepolia_config (Str ''pk''))),
       Done (Inr (instance_params sepolia_config (Str ''pk'')))],
      \<lparr>instanceE = Some (instance_params sepolia_config (Str ''pk'')), isInitialized = True,
       trace = [Fetch ''https://gateway.sepolia.zama.ai/fhe-key'',
                Fetch ''https://gateway.sepolia.zama.ai/fhe-key'']\<rparr>)"
  by (simp add: begin_initialize_def resolve_sepolia fetch_def json_field_def new_client_def
      serving_env_def recording_engine_fields)


end
